theory Spec2Isabelle
  imports Main "HOL-Library.Word"
begin

section \<open>Python values, strings and exceptions\<close>

text \<open>
  \<^verbatim>\<open>run_linter.py\<close> is a single function, \<^verbatim>\<open>lint_pine_script\<close>, and a command-line block
  around it. Everything it computes is Python string handling, one call of the HTTP library
  \<^verbatim>\<open>requests\<close> and a chain of \<^verbatim>\<open>except\<close> clauses.

  A Python \<^verbatim>\<open>str\<close> is a sequence of Unicode code points, so it is a list of naturals here:
  slicing (\<^verbatim>\<open>text[:200]\<close>) and \<^verbatim>\<open>strip\<close> count code points, not bytes. \<open>lit\<close> turns an
  ASCII literal of the source into such a list.
\<close>

type_synonym pystr = "nat list"

definition lit :: "string \<Rightarrow> pystr" where
  "lit s = map of_char s"

text \<open>
  The code points \<^verbatim>\<open>str.strip()\<close> removes when called without argument: those for which
  \<^verbatim>\<open>str.isspace\<close> holds (TAB..CR, FS..US, SPACE, NEL, NBSP, OGHAM SPACE MARK, EN QUAD..HAIR
  SPACE, LINE and PARAGRAPH SEPARATOR, NNBSP, MMSP, IDEOGRAPHIC SPACE).
\<close>

definition py_isspace :: "nat \<Rightarrow> bool" where
  "py_isspace c =
     ((9 \<le> c \<and> c \<le> 13) \<or> (28 \<le> c \<and> c \<le> 32) \<or> c = 133 \<or> c = 160 \<or> c = 5760 \<or>
      (8192 \<le> c \<and> c \<le> 8202) \<or> c = 8232 \<or> c = 8233 \<or> c = 8239 \<or> c = 8287 \<or> c = 12288)"

definition strip :: "pystr \<Rightarrow> pystr" where
  "strip s = rev (dropWhile py_isspace (rev (dropWhile py_isspace s)))"

text \<open>\<^verbatim>\<open>sub in s\<close> on strings: \<open>sub\<close> occurs in \<open>s\<close> as a contiguous run.\<close>

fun startswith :: "pystr \<Rightarrow> pystr \<Rightarrow> bool" where
  "startswith s [] = True"
| "startswith [] (p # ps) = False"
| "startswith (c # cs) (p # ps) = (c = p \<and> startswith cs ps)"

fun str_contains :: "pystr \<Rightarrow> pystr \<Rightarrow> bool" where
  "str_contains sub [] = (sub = [])"
| "str_contains sub (c # cs) = (startswith (c # cs) sub \<or> str_contains sub cs)"

text \<open>\<^verbatim>\<open>str(n)\<close> for an integer, as an f-string renders \<^verbatim>\<open>{e.response.status_code}\<close>.\<close>

function str_nat :: "nat \<Rightarrow> pystr" where
  "str_nat n = (if n < 10 then [48 + n] else str_nat (n div 10) @ [48 + n mod 10])"
  by pat_completeness auto
termination
  by (relation "measure (\<lambda>n. n)") auto

definition str_int :: "int \<Rightarrow> pystr" where
  "str_int i = (if i < 0 then 45 # str_nat (nat (- i)) else str_nat (nat i))"

text \<open>
  The values the function can be handed as \<^verbatim>\<open>script_content\<close> and the values
  \<^verbatim>\<open>response.json()\<close> can return. A JSON \<^verbatim>\<open>null\<close> decodes to Python's \<^verbatim>\<open>None\<close>, the very
  value the function returns on failure. A float is its IEEE 754 bit pattern.
\<close>

datatype py_value =
    PyNone
  | PyBool bool
  | PyInt int
  | PyFloat "64 word"
  | PyStr pystr
  | PyBytes "nat list"
  | PyList "py_value list"
  | PyDict "(py_value \<times> py_value) list"

text \<open>
  Truth value of an object, as \<^verbatim>\<open>if lint_result:\<close> tests it: \<^verbatim>\<open>None\<close>, \<^verbatim>\<open>False\<close>, zero
  (for a float: both signed zeros) and every empty container are false.
\<close>

fun py_bool :: "py_value \<Rightarrow> bool" where
  "py_bool PyNone = False"
| "py_bool (PyBool b) = b"
| "py_bool (PyInt i) = (i \<noteq> 0)"
| "py_bool (PyFloat w) = (push_bit 1 w \<noteq> 0)"
| "py_bool (PyStr s) = (s \<noteq> [])"
| "py_bool (PyBytes b) = (b \<noteq> [])"
| "py_bool (PyList xs) = (xs \<noteq> [])"
| "py_bool (PyDict kvs) = (kvs \<noteq> [])"

text \<open>\<^verbatim>\<open>isinstance(script_content, str)\<close>.\<close>

fun isinstance_str :: "py_value \<Rightarrow> bool" where
  "isinstance_str (PyStr s) = True"
| "isinstance_str v = False"

subsection \<open>The HTTP library\<close>

text \<open>
  What \<^verbatim>\<open>response.json()\<close> raises: \<^verbatim>\<open>requests.exceptions.JSONDecodeError\<close> when the body is
  not JSON, or some other exception of the decoder (a \<^verbatim>\<open>RecursionError\<close> on deep nesting).
  Each carries the text \<^verbatim>\<open>str(e)\<close>.
\<close>

datatype json_failure = DecodeFailed pystr | DecoderCrashed pystr

text \<open>
  The attributes of a \<^verbatim>\<open>requests.Response\<close> the function reads. \<open>resp_headers\<close> is
  \<^verbatim>\<open>response.headers.get\<close>: the lookup is the library's (it ignores case), \<open>None\<close> an absent
  header. \<open>json\<close> is what \<^verbatim>\<open>response.json()\<close> does on this response.
\<close>

record response =
  status_code :: int
  reason :: pystr
  resp_url :: pystr
  resp_headers :: "pystr \<Rightarrow> pystr option"
  resp_text :: pystr
  json :: "json_failure + py_value"

text \<open>
  The exception classes that matter for the \<^verbatim>\<open>except\<close> clauses, each with its method
  resolution order (itself and its base classes). \<open>OtherException\<close> stands for any class
  that derives from \<^verbatim>\<open>Exception\<close> and from none of the others. The classes of the interpreter
  that do not derive from \<^verbatim>\<open>Exception\<close> (\<^verbatim>\<open>KeyboardInterrupt\<close>, \<^verbatim>\<open>SystemExit\<close>) are signals
  to the process, not failures of a call, and are not part of the model.
\<close>

datatype exc_class =
    Exception
  | OtherException
  | AttributeError
  | OSError
  | FileNotFoundError
  | RequestException
  | HTTPError
  | JSONDecodeError
  | ConnectionError
  | Timeout
  | ConnectTimeout
  | ReadTimeout

fun mro :: "exc_class \<Rightarrow> exc_class list" where
  "mro Exception = [Exception]"
| "mro OtherException = [OtherException, Exception]"
| "mro AttributeError = [AttributeError, Exception]"
| "mro OSError = [OSError, Exception]"
| "mro FileNotFoundError = [FileNotFoundError, OSError, Exception]"
| "mro RequestException = [RequestException, OSError, Exception]"
| "mro HTTPError = [HTTPError, RequestException, OSError, Exception]"
| "mro JSONDecodeError = [JSONDecodeError, RequestException, OSError, Exception]"
| "mro ConnectionError = [ConnectionError, RequestException, OSError, Exception]"
| "mro Timeout = [Timeout, RequestException, OSError, Exception]"
| "mro ConnectTimeout =
     [ConnectTimeout, ConnectionError, Timeout, RequestException, OSError, Exception]"
| "mro ReadTimeout = [ReadTimeout, Timeout, RequestException, OSError, Exception]"

text \<open>An exception object: its class, \<^verbatim>\<open>str(e)\<close> and its \<^verbatim>\<open>response\<close> attribute.\<close>

record py_exc =
  exc_class :: exc_class
  exc_str :: pystr
  exc_response :: "response option"

definition isinstance_exc :: "py_exc \<Rightarrow> exc_class \<Rightarrow> bool" where
  "isinstance_exc e c = (c \<in> set (mro (exc_class e)))"

text \<open>
  What \<^verbatim>\<open>requests.post\<close> raises when it does not return a response. The library raises
  \<^verbatim>\<open>HTTPError\<close> in \<^verbatim>\<open>raise_for_status\<close> only and \<^verbatim>\<open>JSONDecodeError\<close> in \<^verbatim>\<open>json()\<close> only,
  so neither is among them.
\<close>

datatype post_failure =
    ConnectionFailed pystr
  | ConnectTimedOut pystr
  | ReadTimedOut pystr
  | RequestFailed pystr
  | Crashed pystr

fun raised_by_post :: "post_failure \<Rightarrow> py_exc" where
  "raised_by_post (ConnectionFailed m) =
     \<lparr>exc_class = ConnectionError, exc_str = m, exc_response = None\<rparr>"
| "raised_by_post (ConnectTimedOut m) =
     \<lparr>exc_class = ConnectTimeout, exc_str = m, exc_response = None\<rparr>"
| "raised_by_post (ReadTimedOut m) =
     \<lparr>exc_class = ReadTimeout, exc_str = m, exc_response = None\<rparr>"
| "raised_by_post (RequestFailed m) =
     \<lparr>exc_class = RequestException, exc_str = m, exc_response = None\<rparr>"
| "raised_by_post (Crashed m) =
     \<lparr>exc_class = OtherException, exc_str = m, exc_response = None\<rparr>"

fun raised_by_json :: "json_failure \<Rightarrow> py_exc" where
  "raised_by_json (DecodeFailed m) =
     \<lparr>exc_class = JSONDecodeError, exc_str = m, exc_response = None\<rparr>"
| "raised_by_json (DecoderCrashed m) =
     \<lparr>exc_class = OtherException, exc_str = m, exc_response = None\<rparr>"

text \<open>
  \<^verbatim>\<open>response.raise_for_status()\<close>: the library raises \<^verbatim>\<open>HTTPError\<close>, with the response
  attached, for a status code from 400 to 599 and returns for every other code.
\<close>

definition raise_for_status :: "response \<Rightarrow> py_exc + unit" where
  "raise_for_status r =
     (if 400 \<le> status_code r \<and> status_code r < 500 then
        Inl \<lparr>exc_class = HTTPError,
             exc_str = str_int (status_code r) @ lit '' Client Error: '' @ reason r
                       @ lit '' for url: '' @ resp_url r,
             exc_response = Some r\<rparr>
      else if 500 \<le> status_code r \<and> status_code r < 600 then
        Inl \<lparr>exc_class = HTTPError,
             exc_str = str_int (status_code r) @ lit '' Server Error: '' @ reason r
                       @ lit '' for url: '' @ resp_url r,
             exc_response = Some r\<rparr>
      else Inr ())"

section \<open>The linter client\<close>

subsection \<open>Configuration and the outbound request\<close>

definition LINT_URL :: pystr where
  "LINT_URL =
     lit ''https://pine-facade.tradingview.com/pine-facade/translate_light?user_name=Guest&v=3''"

definition DEFAULT_USER_AGENT :: pystr where
  "DEFAULT_USER_AGENT =
     lit ''Mozilla/5.0 (Windows NT 10.0; Win64; x64) AppleWebKit/537.36 (KHTML, like Gecko) Chrome/120.0.0.0 Safari/537.36 PineLinterMini/1.0''"

text \<open>
  The arguments of \<^verbatim>\<open>requests.post(LINT_URL, headers=headers, data=data, timeout=20)\<close>. The
  two dictionaries are association lists in the order of the source; the library encodes
  \<open>data\<close> as the form body.
\<close>

record request =
  url :: pystr
  headers :: "(pystr \<times> pystr) list"
  data :: "(pystr \<times> pystr) list"
  timeout :: nat

definition lint_request :: "pystr \<Rightarrow> pystr \<Rightarrow> request" where
  "lint_request script_content user_agent =
     \<lparr>url = LINT_URL,
      headers =
        [(lit ''User-Agent'', user_agent),
         (lit ''Content-Type'', lit ''application/x-www-form-urlencoded;charset=UTF-8''),
         (lit ''Accept'', lit ''application/json, text/plain, */*''),
         (lit ''Origin'', lit ''https://www.tradingview.com''),
         (lit ''Referer'', lit ''https://www.tradingview.com/'')],
      data = [(lit ''source'', script_content)],
      timeout = 20\<rparr>"

subsection \<open>Diagnostics\<close>

text \<open>
  One constructor for each \<^verbatim>\<open>print(..., file=sys.stderr)\<close> of the source, with the values
  its f-string interpolates; \<open>render\<close> is the line that is printed.
\<close>

datatype diag =
    MsgNotString
  | MsgEmpty
  | MsgContentType "pystr option" pystr
  | MsgHttp int pystr
  | MsgJsonDecode pystr pystr
  | MsgRequest pystr
  | MsgUnexpected pystr
  | MsgFileNotFound pystr
  | MsgProcessing pystr
  | MsgUsage

text \<open>\<^verbatim>\<open>str(x)\<close> of the result of \<^verbatim>\<open>headers.get\<close>: the value, or \<^verbatim>\<open>None\<close>.\<close>

fun str_opt :: "pystr option \<Rightarrow> pystr" where
  "str_opt None = lit ''None''"
| "str_opt (Some s) = s"

fun render :: "diag \<Rightarrow> pystr" where
  "render MsgNotString = lit ''Error: script_content must be a string.''"
| "render MsgEmpty = lit ''Error: script_content cannot be empty.''"
| "render (MsgContentType ct body) =
     lit ''Error: Unexpected content type '' @ [39] @ str_opt ct @ [39]
       @ lit ''. Response text: '' @ body"
| "render (MsgHttp code body) =
     lit ''HTTP error during linting: '' @ str_int code @ lit '' - '' @ body"
| "render (MsgJsonDecode e body) =
     lit ''JSON decode error during linting: '' @ e @ lit ''. Response text: '' @ body"
| "render (MsgRequest e) = lit ''Request exception during linting: '' @ e"
| "render (MsgUnexpected e) = lit ''An unexpected error occurred: '' @ e"
| "render (MsgFileNotFound file_path) = lit ''Error: File not found at '' @ file_path"
| "render (MsgProcessing e) = lit ''An error occurred while processing the file: '' @ e"
| "render MsgUsage = lit ''Usage: python run_linter.py <path_to_pine_script_file>''"

text \<open>
  The failure kinds of the specification, as names for the print statements of the source:
  the two input checks, the four \<^verbatim>\<open>except\<close> clauses, the content-type branch and the three
  messages of the command-line block.
\<close>

datatype error_kind =
    InvalidInput
  | TransportError
  | HttpStatusError
  | UnexpectedContentType
  | MalformedResponse
  | UnknownError
  | FileAccessError
  | UsageError

fun kind_of :: "diag \<Rightarrow> error_kind" where
  "kind_of MsgNotString = InvalidInput"
| "kind_of MsgEmpty = InvalidInput"
| "kind_of (MsgContentType ct body) = UnexpectedContentType"
| "kind_of (MsgHttp code body) = HttpStatusError"
| "kind_of (MsgJsonDecode e body) = MalformedResponse"
| "kind_of (MsgRequest e) = TransportError"
| "kind_of (MsgUnexpected e) = UnknownError"
| "kind_of (MsgFileNotFound file_path) = FileAccessError"
| "kind_of (MsgProcessing e) = FileAccessError"
| "kind_of MsgUsage = UsageError"

subsection \<open>The world the calls act on\<close>

text \<open>
  The two output streams and the requests handed to \<^verbatim>\<open>requests.post\<close>, in order. Every
  function below takes the world and returns it updated.
\<close>

record world =
  stdout :: "pystr list"
  stderr :: "diag list"
  sent :: "request list"

definition print_err :: "diag \<Rightarrow> world \<Rightarrow> world" where
  "print_err d w = w\<lparr>stderr := stderr w @ [d]\<rparr>"

definition print_out :: "pystr \<Rightarrow> world \<Rightarrow> world" where
  "print_out s w = w\<lparr>stdout := stdout w @ [s]\<rparr>"

definition send :: "request \<Rightarrow> world \<Rightarrow> world" where
  "send req w = w\<lparr>sent := sent w @ [req]\<rparr>"

subsection \<open>\<^verbatim>\<open>lint_pine_script\<close>\<close>

text \<open>A call either returns a value or lets an exception out.\<close>

datatype outcome = Returned py_value | Propagated py_exc

text \<open>\<^verbatim>\<open>response.headers.get('Content-Type', '')\<close>.\<close>

definition content_type_or_empty :: "response \<Rightarrow> pystr" where
  "content_type_or_empty r =
     (case resp_headers r (lit ''Content-Type'') of None \<Rightarrow> [] | Some ct \<Rightarrow> ct)"

text \<open>
  The body of the \<^verbatim>\<open>try\<close> (lines 29 to 38) on the answer of \<^verbatim>\<open>requests.post\<close>: the
  exception it raises, or the value it returns with what it printed before.
\<close>

fun lint_try :: "post_failure + response \<Rightarrow> py_exc + py_value \<times> diag list" where
  "lint_try (Inl f) = Inl (raised_by_post f)"
| "lint_try (Inr r) =
     (case raise_for_status r of
        Inl e \<Rightarrow> Inl e
      | Inr u \<Rightarrow>
          if str_contains (lit ''application/json'') (content_type_or_empty r) then
            (case json r of
               Inl f \<Rightarrow> Inl (raised_by_json f)
             | Inr v \<Rightarrow> Inr (v, []))
          else
            Inr (PyNone,
                 [MsgContentType (resp_headers r (lit ''Content-Type''))
                    (take 200 (resp_text r))]))"

text \<open>The local variable \<^verbatim>\<open>response\<close>: bound once \<^verbatim>\<open>requests.post\<close> has returned.\<close>

fun local_response :: "post_failure + response \<Rightarrow> response option" where
  "local_response (Inl f) = None"
| "local_response (Inr r) = Some r"

text \<open>
  The \<^verbatim>\<open>except\<close> clauses (lines 40 to 49), tried in the order of the source: the diagnostic
  the first matching clause prints, or the exception the clause itself raises. Line 42 reads
  \<^verbatim>\<open>e.response.status_code\<close>, an \<^verbatim>\<open>AttributeError\<close> when \<^verbatim>\<open>e.response\<close> is \<^verbatim>\<open>None\<close>. Every
  class of the model derives from \<^verbatim>\<open>Exception\<close>, so the last clause catches what is left.
\<close>

definition lint_except :: "response option \<Rightarrow> py_exc \<Rightarrow> py_exc + diag" where
  "lint_except local e =
     (if isinstance_exc e HTTPError then
        (case exc_response e of
           None \<Rightarrow>
             Inl \<lparr>exc_class = AttributeError,
                  exc_str = [39] @ lit ''NoneType'' @ [39]
                            @ lit '' object has no attribute '' @ [39] @ lit ''status_code'' @ [39],
                  exc_response = None\<rparr>
         | Some r \<Rightarrow> Inr (MsgHttp (status_code r) (take 200 (resp_text r))))
      else if isinstance_exc e JSONDecodeError then
        Inr (MsgJsonDecode (exc_str e)
               (case local of None \<Rightarrow> lit ''N/A'' | Some r \<Rightarrow> take 200 (resp_text r)))
      else if isinstance_exc e RequestException then Inr (MsgRequest (exc_str e))
      else Inr (MsgUnexpected (exc_str e)))"

definition lint_pine_script ::
  "(request \<Rightarrow> post_failure + response) \<Rightarrow> py_value \<Rightarrow> pystr \<Rightarrow> world \<Rightarrow> outcome \<times> world"
where
  "lint_pine_script post script_content user_agent w =
     (case script_content of
        PyStr s \<Rightarrow>
          if strip s = [] then (Returned PyNone, print_err MsgEmpty w)
          else
            let req = lint_request s user_agent;
                answer = post req;
                w1 = send req w
            in (case lint_try answer of
                  Inr (v, ds) \<Rightarrow> (Returned v, w1\<lparr>stderr := stderr w1 @ ds\<rparr>)
                | Inl e \<Rightarrow>
                    (case lint_except (local_response answer) e of
                       Inr d \<Rightarrow> (Returned PyNone, print_err d w1)
                     | Inl e' \<Rightarrow> (Propagated e', w1)))
      | _ \<Rightarrow> (Returned PyNone, print_err MsgNotString w))"

subsection \<open>The command-line block\<close>

text \<open>
  Lines 52 to 67. \<open>argv\<close> is \<^verbatim>\<open>sys.argv\<close>, \<open>read_file\<close> what opening and reading the file at a
  path gives (its text or the exception raised), \<open>dumps\<close> the library's
  \<^verbatim>\<open>json.dumps(value, indent=n)\<close>. Both \<^verbatim>\<open>except\<close> clauses only print.
\<close>

definition main_except :: "pystr \<Rightarrow> py_exc \<Rightarrow> world \<Rightarrow> world" where
  "main_except file_path e w =
     (if isinstance_exc e FileNotFoundError then print_err (MsgFileNotFound file_path) w
      else print_err (MsgProcessing (exc_str e)) w)"

definition main ::
  "(nat \<Rightarrow> py_value \<Rightarrow> pystr) \<Rightarrow> (pystr \<Rightarrow> py_exc + pystr) \<Rightarrow>
   (request \<Rightarrow> post_failure + response) \<Rightarrow> pystr list \<Rightarrow> world \<Rightarrow> world"
where
  "main dumps read_file post argv w =
     (if length argv > 1 then
        let file_path = argv ! 1 in
        (case read_file file_path of
           Inl e \<Rightarrow> main_except file_path e w
         | Inr script_content \<Rightarrow>
             (case lint_pine_script post (PyStr script_content) DEFAULT_USER_AGENT w of
                (Returned lint_result, w1) \<Rightarrow>
                  if py_bool lint_result then print_out (dumps 4 lint_result) w1 else w1
              | (Propagated e, w1) \<Rightarrow> main_except file_path e w1))
      else print_err MsgUsage w)"

section \<open>Simulated transports\<close>

text \<open>
  Transports and responses with fixed answers, for evaluating the client on concrete inputs:
  a response with a given status, \<^verbatim>\<open>Content-Type\<close> header, body and decoding, a transport
  that always returns one response, and a transport that always fails in one way.
\<close>

definition simulated_response ::
  "int \<Rightarrow> pystr option \<Rightarrow> pystr \<Rightarrow> json_failure + py_value \<Rightarrow> response" where
  "simulated_response code ct body decoded =
     \<lparr>status_code = code, reason = [], resp_url = LINT_URL,
      resp_headers = (\<lambda>k. if k = lit ''Content-Type'' then ct else None),
      resp_text = body, json = decoded\<rparr>"

definition respond_with :: "response \<Rightarrow> request \<Rightarrow> post_failure + response" where
  "respond_with r req = Inr r"

definition fail_with :: "post_failure \<Rightarrow> request \<Rightarrow> post_failure + response" where
  "fail_with f req = Inl f"

definition read_as :: "pystr \<Rightarrow> pystr \<Rightarrow> py_exc + pystr" where
  "read_as content file_path = Inr content"

definition example_script :: pystr where
  "example_script = lit ''strategy() => ...''"

definition example_argv :: "pystr list" where
  "example_argv = [lit ''run_linter.py'', lit ''script.pine'']"

definition empty_world :: world where
  "empty_world = \<lparr>stdout = [], stderr = [], sent = []\<rparr>"

text \<open>The body \<^verbatim>\<open>{"result": "ok"}\<close> and the mapping it decodes to.\<close>

definition ok_body :: pystr where
  "ok_body = [123, 34] @ lit ''result'' @ [34] @ lit '': '' @ [34] @ lit ''ok'' @ [34, 125]"

definition ok_mapping :: py_value where
  "ok_mapping = PyDict [(PyStr (lit ''result''), PyStr (lit ''ok''))]"

text \<open>
  The answer of a service that has nothing to report: status 200, a JSON content type and the
  body \<^verbatim>\<open>{}\<close>, which decodes to the empty mapping.
\<close>

definition empty_object_response :: response where
  "empty_object_response =
     simulated_response 200 (Some (lit ''application/json'')) [123, 125] (Inr (PyDict []))"

text \<open>
  A body the decoder gives up on without calling it malformed: an integer of 5000 digits, on
  which \<^verbatim>\<open>response.json()\<close> raises a plain \<^verbatim>\<open>ValueError\<close> (the interpreter's limit on
  the length of integer strings), not a \<^verbatim>\<open>JSONDecodeError\<close>.
\<close>

definition long_number_body :: pystr where
  "long_number_body = replicate 5000 49"

definition long_number_response :: response where
  "long_number_response =
     simulated_response 200 (Some (lit ''application/json'')) long_number_body
       (Inl (DecoderCrashed (lit ''Exceeds the limit (4300 digits) for integer string conversion'')))"

section \<open>Properties\<close>

subsection \<open>Strings\<close>

lemma all_dropWhile_iff: "(\<forall>c\<in>set (dropWhile P s). P c) \<longleftrightarrow> (\<forall>c\<in>set s. P c)"
  by (induction s) auto

lemma strip_empty_iff: "strip s = [] \<longleftrightarrow> (\<forall>c\<in>set s. py_isspace c)"
  by (simp add: strip_def all_dropWhile_iff)

lemma startswith_append: "startswith (sub @ post) sub"
  by (induction sub) auto

lemma str_contains_append: "str_contains sub (pre @ sub @ post)"
proof (induction pre)
  case Nil
  show ?case
    using startswith_append [of sub post] by (cases "sub @ post") auto
next
  case (Cons c pre)
  then show ?case by simp
qed

lemma startswith_decompose: "startswith s sub \<Longrightarrow> \<exists>post. s = sub @ post"
  by (induction s sub rule: startswith.induct) auto

lemma str_contains_decompose: "str_contains sub s \<Longrightarrow> \<exists>pre post. s = pre @ sub @ post"
proof (induction s)
  case Nil
  then show ?case by simp
next
  case (Cons c cs)
  show ?case
  proof (cases "startswith (c # cs) sub")
    case True
    then obtain post where "c # cs = sub @ post"
      using startswith_decompose by blast
    then have "c # cs = [] @ sub @ post" by simp
    then show ?thesis by blast
  next
    case False
    with Cons.prems have "str_contains sub cs" by simp
    then obtain pre post where "cs = pre @ sub @ post"
      using Cons.IH by blast
    then have "c # cs = (c # pre) @ sub @ post" by simp
    then show ?thesis by blast
  qed
qed

lemma example_script_not_blank: "strip example_script \<noteq> []"
  by (simp add: strip_def example_script_def lit_def py_isspace_def)

subsection \<open>The status check and the \<^verbatim>\<open>except\<close> clauses\<close>

lemma raise_for_status_passes:
  "\<not> (400 \<le> status_code r \<and> status_code r < 600) \<Longrightarrow> raise_for_status r = Inr ()"
  by (auto simp: raise_for_status_def)

lemma raise_for_status_raises:
  assumes "400 \<le> status_code r" and "status_code r < 600"
  shows "\<exists>m. raise_for_status r = Inl \<lparr>exc_class = HTTPError, exc_str = m, exc_response = Some r\<rparr>"
  using assms by (auto simp: raise_for_status_def)

lemma lint_except_http:
  "lint_except l \<lparr>exc_class = HTTPError, exc_str = m, exc_response = Some r\<rparr>
     = Inr (MsgHttp (status_code r) (take 200 (resp_text r)))"
  by (simp add: lint_except_def isinstance_exc_def)

lemma lint_except_json:
  "lint_except (Some r) \<lparr>exc_class = JSONDecodeError, exc_str = m, exc_response = None\<rparr>
     = Inr (MsgJsonDecode m (take 200 (resp_text r)))"
  by (simp add: lint_except_def isinstance_exc_def)

lemma lint_except_decoder_crash:
  "lint_except l \<lparr>exc_class = OtherException, exc_str = m, exc_response = None\<rparr>
     = Inr (MsgUnexpected m)"
  by (simp add: lint_except_def isinstance_exc_def)

lemma lint_except_post:
  "lint_except None (raised_by_post f) =
     Inr (case f of Crashed m \<Rightarrow> MsgUnexpected m
          | ConnectionFailed m \<Rightarrow> MsgRequest m
          | ConnectTimedOut m \<Rightarrow> MsgRequest m
          | ReadTimedOut m \<Rightarrow> MsgRequest m
          | RequestFailed m \<Rightarrow> MsgRequest m)"
  by (cases f) (simp_all add: lint_except_def isinstance_exc_def)

text \<open>
  A clause can itself raise: the first one does on an \<^verbatim>\<open>HTTPError\<close> that carries no
  response. The library never builds one, which is why no call lets an exception out.
\<close>

lemma lint_except_http_without_response:
  "\<exists>e'. lint_except l \<lparr>exc_class = HTTPError, exc_str = m, exc_response = None\<rparr> = Inl e'
        \<and> exc_class e' = AttributeError"
  by (simp add: lint_except_def isinstance_exc_def)

text \<open>Unfolding a call whose input passed both checks.\<close>

lemma lint_valid_input:
  assumes "strip s \<noteq> []"
  shows "lint_pine_script post (PyStr s) ua w =
     (case lint_try (post (lint_request s ua)) of
        Inr (v, ds) \<Rightarrow>
          (Returned v, (send (lint_request s ua) w)
             \<lparr>stderr := stderr (send (lint_request s ua) w) @ ds\<rparr>)
      | Inl e \<Rightarrow>
          (case lint_except (local_response (post (lint_request s ua))) e of
             Inr d \<Rightarrow> (Returned PyNone, print_err d (send (lint_request s ua) w))
           | Inl e' \<Rightarrow> (Propagated e', send (lint_request s ua) w)))"
  using assms by (simp add: lint_pine_script_def Let_def)

lemma lint_not_string:
  "\<not> isinstance_str x \<Longrightarrow>
     lint_pine_script post x ua w = (Returned PyNone, print_err MsgNotString w)"
  by (cases x) (simp_all add: lint_pine_script_def)

lemma lint_blank:
  "strip s = [] \<Longrightarrow>
     lint_pine_script post (PyStr s) ua w = (Returned PyNone, print_err MsgEmpty w)"
  by (simp add: lint_pine_script_def)

lemma lint_post_failed:
  assumes "strip s \<noteq> []" and "post (lint_request s ua) = Inl f"
  shows "lint_pine_script post (PyStr s) ua w =
     (Returned PyNone,
      print_err (case f of Crashed m \<Rightarrow> MsgUnexpected m
          | ConnectionFailed m \<Rightarrow> MsgRequest m
          | ConnectTimedOut m \<Rightarrow> MsgRequest m
          | ReadTimedOut m \<Rightarrow> MsgRequest m
          | RequestFailed m \<Rightarrow> MsgRequest m) (send (lint_request s ua) w))"
  using assms by (simp add: lint_valid_input lint_except_post)

lemma lint_status_error:
  assumes "strip s \<noteq> []" and "post (lint_request s ua) = Inr r"
    and "400 \<le> status_code r" and "status_code r < 600"
  shows "lint_pine_script post (PyStr s) ua w =
     (Returned PyNone,
      print_err (MsgHttp (status_code r) (take 200 (resp_text r))) (send (lint_request s ua) w))"
proof -
  obtain m where "raise_for_status r =
      Inl \<lparr>exc_class = HTTPError, exc_str = m, exc_response = Some r\<rparr>"
    using raise_for_status_raises [OF assms(3,4)] by blast
  then show ?thesis
    using assms(1,2) by (simp add: lint_valid_input lint_except_http)
qed

lemma lint_status_passed:
  assumes "strip s \<noteq> []" and "post (lint_request s ua) = Inr r"
    and "\<not> (400 \<le> status_code r \<and> status_code r < 600)"
  shows "lint_pine_script post (PyStr s) ua w =
     (if str_contains (lit ''application/json'') (content_type_or_empty r) then
        (case json r of
           Inr v \<Rightarrow> (Returned v, send (lint_request s ua) w)
         | Inl (DecodeFailed m) \<Rightarrow>
             (Returned PyNone,
              print_err (MsgJsonDecode m (take 200 (resp_text r))) (send (lint_request s ua) w))
         | Inl (DecoderCrashed m) \<Rightarrow>
             (Returned PyNone, print_err (MsgUnexpected m) (send (lint_request s ua) w)))
      else
        (Returned PyNone,
         print_err (MsgContentType (resp_headers r (lit ''Content-Type''))
                      (take 200 (resp_text r))) (send (lint_request s ua) w)))"
  using assms
  by (simp add: lint_valid_input raise_for_status_passes lint_except_json
        lint_except_decoder_crash print_err_def split: sum.splits json_failure.splits)

subsection \<open>Successful decoding\<close>

text \<open>
  C1. If the transport returns HTTP 200 with a \<^verbatim>\<open>Content-Type\<close> header that indicates
  \<^verbatim>\<open>application/json\<close> (the header value contains that text) and a body that decodes as JSON,
  the call returns the decoded value exactly as the decoder gave it; nothing is printed, and
  the one request has been sent. The input is one that reaches the transport: a string that is
  not blank.
\<close>

theorem lint_returns_decoded_json:
  assumes "strip s \<noteq> []"
    and "post (lint_request s ua) = Inr r"
    and "status_code r = 200"
    and "resp_headers r (lit ''Content-Type'') = Some ct"
    and "str_contains (lit ''application/json'') ct"
    and "json r = Inr v"
  shows "lint_pine_script post (PyStr s) ua w = (Returned v, send (lint_request s ua) w)"
  using assms by (simp add: lint_status_passed content_type_or_empty_def)

theorem lint_returns_decoded_json_witness:
  "strip example_script \<noteq> []
   \<and> status_code (simulated_response 200 (Some (lit ''application/json'')) ok_body
        (Inr ok_mapping)) = 200
   \<and> lint_pine_script
       (respond_with (simulated_response 200 (Some (lit ''application/json'')) ok_body
          (Inr ok_mapping)))
       (PyStr example_script) DEFAULT_USER_AGENT empty_world
     = (Returned ok_mapping, send (lint_request example_script DEFAULT_USER_AGENT) empty_world)"
  using lint_returns_decoded_json
    [of example_script
        "respond_with (simulated_response 200 (Some (lit ''application/json'')) ok_body
           (Inr ok_mapping))"
        DEFAULT_USER_AGENT
        "simulated_response 200 (Some (lit ''application/json'')) ok_body (Inr ok_mapping)"
        "lit ''application/json''" ok_mapping empty_world]
  by (simp add: example_script_not_blank respond_with_def simulated_response_def
        str_contains_append [of _ "[]" "[]", simplified])

subsection \<open>Input checks\<close>

text \<open>
  C2. For every input that is not a string, and for every string that is empty or consists
  of whitespace only, the call returns no result (\<^verbatim>\<open>None\<close>), prints one diagnostic of kind
  \<open>InvalidInput\<close> on the error channel and sends no request.
\<close>

theorem lint_rejects_invalid_input:
  assumes "\<not> isinstance_str x \<or> (\<exists>s. x = PyStr s \<and> (\<forall>c\<in>set s. py_isspace c))"
  shows "lint_pine_script post x ua w
           = (Returned PyNone, print_err (if isinstance_str x then MsgEmpty else MsgNotString) w)
         \<and> kind_of (if isinstance_str x then MsgEmpty else MsgNotString) = InvalidInput
         \<and> sent (snd (lint_pine_script post x ua w)) = sent w
         \<and> stdout (snd (lint_pine_script post x ua w)) = stdout w"
proof (cases "isinstance_str x")
  case False
  then show ?thesis
    by (simp add: lint_not_string print_err_def)
next
  case True
  with assms obtain s where "x = PyStr s" and "\<forall>c\<in>set s. py_isspace c"
    by blast
  then show ?thesis
    by (simp add: lint_blank strip_empty_iff print_err_def)
qed

theorem lint_rejects_invalid_input_witness:
  "lint_pine_script (respond_with (simulated_response 200 (Some (lit ''application/json''))
        ok_body (Inr ok_mapping))) (PyInt 42) DEFAULT_USER_AGENT empty_world
     = (Returned PyNone, \<lparr>stdout = [], stderr = [MsgNotString], sent = []\<rparr>)
   \<and> lint_pine_script (respond_with (simulated_response 200 (Some (lit ''application/json''))
        ok_body (Inr ok_mapping))) (PyStr [32, 9, 10, 160, 8195]) DEFAULT_USER_AGENT empty_world
     = (Returned PyNone, \<lparr>stdout = [], stderr = [MsgEmpty], sent = []\<rparr>)"
  using lint_rejects_invalid_input
      [of "PyInt 42"
          "respond_with (simulated_response 200 (Some (lit ''application/json'')) ok_body
             (Inr ok_mapping))"
          DEFAULT_USER_AGENT empty_world]
    lint_rejects_invalid_input
      [of "PyStr [32, 9, 10, 160, 8195]"
          "respond_with (simulated_response 200 (Some (lit ''application/json'')) ok_body
             (Inr ok_mapping))"
          DEFAULT_USER_AGENT empty_world]
  by (simp add: py_isspace_def print_err_def empty_world_def)

subsection \<open>HTTP error statuses\<close>

text \<open>
  C4, as the claim states it, fails: a status code that is not a success code but lies
  outside 400..599 passes \<^verbatim>\<open>raise_for_status\<close>. On a response with status 300 (Multiple
  Choices), a JSON content type and a JSON body the call returns the decoded mapping and
  prints nothing.
\<close>

theorem http_status_counterexample:
  "status_code (simulated_response 300 (Some (lit ''application/json'')) ok_body
       (Inr ok_mapping)) = 300
   \<and> lint_pine_script
       (respond_with (simulated_response 300 (Some (lit ''application/json'')) ok_body
          (Inr ok_mapping)))
       (PyStr example_script) DEFAULT_USER_AGENT empty_world
     = (Returned ok_mapping,
        \<lparr>stdout = [], stderr = [], sent = [lint_request example_script DEFAULT_USER_AGENT]\<rparr>)
   \<and> ok_mapping \<noteq> PyNone"
  by (simp add: lint_status_passed example_script_not_blank respond_with_def
        simulated_response_def content_type_or_empty_def send_def empty_world_def
        ok_mapping_def str_contains_append [of _ "[]" "[]", simplified])

text \<open>
  C4, amended. For every response with a status code from 400 to 599 the call returns no
  result and prints one diagnostic of kind \<open>HttpStatusError\<close>, whose text holds the status
  code and the first 200 characters of the body.
\<close>

theorem lint_http_error_status:
  assumes "strip s \<noteq> []"
    and "post (lint_request s ua) = Inr r"
    and "400 \<le> status_code r" and "status_code r < 600"
  shows "lint_pine_script post (PyStr s) ua w
           = (Returned PyNone,
              print_err (MsgHttp (status_code r) (take 200 (resp_text r)))
                (send (lint_request s ua) w))
         \<and> kind_of (MsgHttp (status_code r) (take 200 (resp_text r))) = HttpStatusError
         \<and> render (MsgHttp (status_code r) (take 200 (resp_text r)))
             = lit ''HTTP error during linting: '' @ str_int (status_code r) @ lit '' - ''
               @ take 200 (resp_text r)"
  using assms by (simp add: lint_status_error)

theorem lint_http_error_status_witness:
  "lint_pine_script
       (respond_with (simulated_response 500 (Some (lit ''text/plain''))
          (lit ''server error details...'') (Inl (DecodeFailed (lit ''Expecting value'')))))
       (PyStr example_script) DEFAULT_USER_AGENT empty_world
     = (Returned PyNone,
        \<lparr>stdout = [], stderr = [MsgHttp 500 (lit ''server error details...'')],
         sent = [lint_request example_script DEFAULT_USER_AGENT]\<rparr>)
   \<and> render (MsgHttp 500 (lit ''server error details...''))
       = lit ''HTTP error during linting: 500 - server error details...''"
  using lint_http_error_status
    [of example_script
        "respond_with (simulated_response 500 (Some (lit ''text/plain''))
           (lit ''server error details...'') (Inl (DecodeFailed (lit ''Expecting value''))))"
        DEFAULT_USER_AGENT
        "simulated_response 500 (Some (lit ''text/plain''))
           (lit ''server error details...'') (Inl (DecodeFailed (lit ''Expecting value'')))"
        empty_world]
  by (simp add: example_script_not_blank respond_with_def simulated_response_def
        print_err_def send_def empty_world_def str_int_def lit_def)

subsection \<open>Unexpected content type\<close>

text \<open>
  C5. For every response with a success status (200 to 299) whose declared \<^verbatim>\<open>Content-Type\<close>
  does not indicate JSON (does not contain \<^verbatim>\<open>application/json\<close>), the call returns no result
  and prints one diagnostic of kind \<open>UnexpectedContentType\<close>, whose text holds the declared
  content type and the first 200 characters of the body.
\<close>

theorem lint_unexpected_content_type:
  assumes "strip s \<noteq> []"
    and "post (lint_request s ua) = Inr r"
    and "200 \<le> status_code r" and "status_code r < 300"
    and "resp_headers r (lit ''Content-Type'') = Some ct"
    and "\<not> str_contains (lit ''application/json'') ct"
  shows "lint_pine_script post (PyStr s) ua w
           = (Returned PyNone,
              print_err (MsgContentType (Some ct) (take 200 (resp_text r)))
                (send (lint_request s ua) w))
         \<and> kind_of (MsgContentType (Some ct) (take 200 (resp_text r))) = UnexpectedContentType
         \<and> render (MsgContentType (Some ct) (take 200 (resp_text r)))
             = lit ''Error: Unexpected content type '' @ [39] @ ct @ [39]
               @ lit ''. Response text: '' @ take 200 (resp_text r)"
  using assms by (simp add: lint_status_passed content_type_or_empty_def)

theorem lint_unexpected_content_type_witness:
  "lint_pine_script
       (respond_with (simulated_response 200 (Some (lit ''text/html''))
          (lit ''<html>...</html>'') (Inl (DecodeFailed (lit ''Expecting value'')))))
       (PyStr example_script) DEFAULT_USER_AGENT empty_world
     = (Returned PyNone,
        \<lparr>stdout = [],
         stderr = [MsgContentType (Some (lit ''text/html'')) (lit ''<html>...</html>'')],
         sent = [lint_request example_script DEFAULT_USER_AGENT]\<rparr>)
   \<and> render (MsgContentType (Some (lit ''text/html'')) (lit ''<html>...</html>''))
       = lit ''Error: Unexpected content type '' @ [39] @ lit ''text/html'' @ [39]
         @ lit ''. Response text: <html>...</html>''"
  using lint_unexpected_content_type
    [of example_script
        "respond_with (simulated_response 200 (Some (lit ''text/html''))
           (lit ''<html>...</html>'') (Inl (DecodeFailed (lit ''Expecting value''))))"
        DEFAULT_USER_AGENT
        "simulated_response 200 (Some (lit ''text/html''))
           (lit ''<html>...</html>'') (Inl (DecodeFailed (lit ''Expecting value'')))"
        "lit ''text/html''" empty_world]
  by (simp add: example_script_not_blank respond_with_def simulated_response_def
        print_err_def send_def empty_world_def lit_def)

subsection \<open>Malformed JSON\<close>

text \<open>
  C6, as the claim states it, fails in two ways. The status check comes before the decoding:
  on a response with status 500, a JSON content type and a body that is not JSON, the
  diagnostic is the one of the \<^verbatim>\<open>HTTPError\<close> clause. And only a \<^verbatim>\<open>JSONDecodeError\<close> reaches
  the second \<^verbatim>\<open>except\<close> clause: on a response with status 200, a JSON content type and a body
  on which the decoder raises another exception, the diagnostic is the one of the last
  clause. Neither is of kind \<open>MalformedResponse\<close>.
\<close>

theorem malformed_json_counterexample:
  "json (simulated_response 500 (Some (lit ''application/json'')) (lit ''not json'')
       (Inl (DecodeFailed (lit ''Expecting value''))))
     = Inl (DecodeFailed (lit ''Expecting value''))
   \<and> lint_pine_script
       (respond_with (simulated_response 500 (Some (lit ''application/json''))
          (lit ''not json'') (Inl (DecodeFailed (lit ''Expecting value'')))))
       (PyStr example_script) DEFAULT_USER_AGENT empty_world
     = (Returned PyNone,
        \<lparr>stdout = [], stderr = [MsgHttp 500 (lit ''not json'')],
         sent = [lint_request example_script DEFAULT_USER_AGENT]\<rparr>)
   \<and> kind_of (MsgHttp 500 (lit ''not json'')) \<noteq> MalformedResponse
   \<and> status_code long_number_response = 200
   \<and> resp_headers long_number_response (lit ''Content-Type'') = Some (lit ''application/json'')
   \<and> json long_number_response
     = Inl (DecoderCrashed (lit ''Exceeds the limit (4300 digits) for integer string conversion''))
   \<and> lint_pine_script (respond_with long_number_response) (PyStr example_script)
       DEFAULT_USER_AGENT empty_world
     = (Returned PyNone,
        \<lparr>stdout = [],
         stderr = [MsgUnexpected
           (lit ''Exceeds the limit (4300 digits) for integer string conversion'')],
         sent = [lint_request example_script DEFAULT_USER_AGENT]\<rparr>)
   \<and> kind_of (MsgUnexpected
         (lit ''Exceeds the limit (4300 digits) for integer string conversion''))
     \<noteq> MalformedResponse"
proof -
  have status_first: "lint_pine_script
       (respond_with (simulated_response 500 (Some (lit ''application/json''))
          (lit ''not json'') (Inl (DecodeFailed (lit ''Expecting value'')))))
       (PyStr example_script) DEFAULT_USER_AGENT empty_world
     = (Returned PyNone,
        \<lparr>stdout = [], stderr = [MsgHttp 500 (lit ''not json'')],
         sent = [lint_request example_script DEFAULT_USER_AGENT]\<rparr>)"
    by (simp add: lint_status_error example_script_not_blank respond_with_def
        simulated_response_def print_err_def send_def empty_world_def lit_def)
  have crashed: "lint_pine_script (respond_with long_number_response) (PyStr example_script)
       DEFAULT_USER_AGENT empty_world
     = (Returned PyNone,
        \<lparr>stdout = [],
         stderr = [MsgUnexpected
           (lit ''Exceeds the limit (4300 digits) for integer string conversion'')],
         sent = [lint_request example_script DEFAULT_USER_AGENT]\<rparr>)"
    by (simp add: lint_status_passed example_script_not_blank respond_with_def
        long_number_response_def simulated_response_def content_type_or_empty_def
        print_err_def send_def empty_world_def
        str_contains_append [of _ "[]" "[]", simplified])
  show ?thesis
    using status_first crashed
    by (simp add: long_number_response_def simulated_response_def)
qed

text \<open>
  C6, amended. For every response whose status code is outside 400..599, whose declared
  content type indicates JSON and on whose body the decoder raises \<^verbatim>\<open>JSONDecodeError\<close> (the
  body is not well-formed JSON), the call returns no result and prints one diagnostic of kind
  \<open>MalformedResponse\<close>, whose text holds the decode error and the first 200 characters of the
  body.
\<close>

theorem lint_malformed_json:
  assumes "strip s \<noteq> []"
    and "post (lint_request s ua) = Inr r"
    and "\<not> (400 \<le> status_code r \<and> status_code r < 600)"
    and "resp_headers r (lit ''Content-Type'') = Some ct"
    and "str_contains (lit ''application/json'') ct"
    and "json r = Inl (DecodeFailed m)"
  shows "lint_pine_script post (PyStr s) ua w
           = (Returned PyNone,
              print_err (MsgJsonDecode m (take 200 (resp_text r))) (send (lint_request s ua) w))
         \<and> kind_of (MsgJsonDecode m (take 200 (resp_text r))) = MalformedResponse
         \<and> render (MsgJsonDecode m (take 200 (resp_text r)))
             = lit ''JSON decode error during linting: '' @ m @ lit ''. Response text: ''
               @ take 200 (resp_text r)"
  using assms by (simp add: lint_status_passed content_type_or_empty_def)

theorem lint_malformed_json_witness:
  "lint_pine_script
       (respond_with (simulated_response 200 (Some (lit ''application/json''))
          (lit ''not json'') (Inl (DecodeFailed (lit ''Expecting value'')))))
       (PyStr example_script) DEFAULT_USER_AGENT empty_world
     = (Returned PyNone,
        \<lparr>stdout = [],
         stderr = [MsgJsonDecode (lit ''Expecting value'') (lit ''not json'')],
         sent = [lint_request example_script DEFAULT_USER_AGENT]\<rparr>)
   \<and> render (MsgJsonDecode (lit ''Expecting value'') (lit ''not json''))
       = lit ''JSON decode error during linting: Expecting value. Response text: not json''"
  using lint_malformed_json
    [of example_script
        "respond_with (simulated_response 200 (Some (lit ''application/json''))
           (lit ''not json'') (Inl (DecodeFailed (lit ''Expecting value''))))"
        DEFAULT_USER_AGENT
        "simulated_response 200 (Some (lit ''application/json''))
           (lit ''not json'') (Inl (DecodeFailed (lit ''Expecting value'')))"
        "lit ''application/json''" "lit ''Expecting value''" empty_world]
  by (simp add: example_script_not_blank respond_with_def simulated_response_def
        print_err_def send_def empty_world_def lit_def)

subsection \<open>Transport failures\<close>

text \<open>
  C7. The request carries the fixed timeout of 20. Whenever \<^verbatim>\<open>requests.post\<close> fails to
  complete the request (a connection error, which is also what a DNS failure gives, a connect
  or read timeout, or any other \<^verbatim>\<open>RequestException\<close>), the call returns no result and prints
  one diagnostic of kind \<open>TransportError\<close>, whose text ends with the text of the exception.
\<close>

theorem lint_transport_failure:
  assumes "strip s \<noteq> []"
    and "post (lint_request s ua) = Inl f"
    and "f = ConnectionFailed m \<or> f = ConnectTimedOut m \<or> f = ReadTimedOut m
         \<or> f = RequestFailed m"
  shows "timeout (lint_request s ua) = 20
         \<and> lint_pine_script post (PyStr s) ua w
           = (Returned PyNone, print_err (MsgRequest m) (send (lint_request s ua) w))
         \<and> kind_of (MsgRequest m) = TransportError
         \<and> render (MsgRequest m) = lit ''Request exception during linting: '' @ m"
  using assms by (auto simp: lint_post_failed lint_request_def)

theorem lint_transport_failure_witness:
  "lint_pine_script (fail_with (ReadTimedOut (lit ''Read timed out. (read timeout=20)'')))
       (PyStr example_script) DEFAULT_USER_AGENT empty_world
     = (Returned PyNone,
        \<lparr>stdout = [], stderr = [MsgRequest (lit ''Read timed out. (read timeout=20)'')],
         sent = [lint_request example_script DEFAULT_USER_AGENT]\<rparr>)
   \<and> render (MsgRequest (lit ''Read timed out. (read timeout=20)''))
       = lit ''Request exception during linting: Read timed out. (read timeout=20)''"
  using lint_transport_failure
    [of example_script "fail_with (ReadTimedOut (lit ''Read timed out. (read timeout=20)''))"
        DEFAULT_USER_AGENT "ReadTimedOut (lit ''Read timed out. (read timeout=20)'')"
        "lit ''Read timed out. (read timeout=20)''" empty_world]
  by (simp add: example_script_not_blank fail_with_def print_err_def send_def
        empty_world_def lit_def)

subsection \<open>No exception leaves the call\<close>

text \<open>
  Every call ends in one of three ways: the decoded value is returned; \<^verbatim>\<open>None\<close> is returned
  with one diagnostic and no request sent; \<^verbatim>\<open>None\<close> is returned with one diagnostic after the
  request was sent.
\<close>

lemma lint_outcome_cases:
  "(\<exists>s r v. x = PyStr s \<and> post (lint_request s ua) = Inr r \<and> json r = Inr v
       \<and> lint_pine_script post x ua w = (Returned v, send (lint_request s ua) w))
   \<or> (\<exists>d. lint_pine_script post x ua w = (Returned PyNone, print_err d w))
   \<or> (\<exists>d s. x = PyStr s
       \<and> lint_pine_script post x ua w
           = (Returned PyNone, print_err d (send (lint_request s ua) w)))"
proof (cases "isinstance_str x")
  case False
  then show ?thesis
    using lint_not_string [of x post ua w] by blast
next
  case True
  then obtain s where x: "x = PyStr s"
    by (cases x) simp_all
  show ?thesis
  proof (cases "strip s = []")
    case True
    then show ?thesis
      using lint_blank [of s post ua w] x by blast
  next
    case False
    note valid = this
    show ?thesis
    proof (cases "post (lint_request s ua)")
      case (Inl f)
      then show ?thesis
        using lint_post_failed [of s post ua f w] valid x by auto
    next
      case (Inr r)
      show ?thesis
      proof (cases "400 \<le> status_code r \<and> status_code r < 600")
        case True
        then show ?thesis
          using lint_status_error [of s post ua r w] valid Inr x by auto
      next
        case False
        have unfolded: "lint_pine_script post (PyStr s) ua w =
           (if str_contains (lit ''application/json'') (content_type_or_empty r) then
              (case json r of
                 Inr v \<Rightarrow> (Returned v, send (lint_request s ua) w)
               | Inl (DecodeFailed m) \<Rightarrow>
                   (Returned PyNone,
                    print_err (MsgJsonDecode m (take 200 (resp_text r)))
                      (send (lint_request s ua) w))
               | Inl (DecoderCrashed m) \<Rightarrow>
                   (Returned PyNone, print_err (MsgUnexpected m) (send (lint_request s ua) w)))
            else
              (Returned PyNone,
               print_err (MsgContentType (resp_headers r (lit ''Content-Type''))
                            (take 200 (resp_text r))) (send (lint_request s ua) w)))"
          using lint_status_passed [of s post ua r w] valid Inr False by simp
        show ?thesis
        proof (cases "str_contains (lit ''application/json'') (content_type_or_empty r)")
          case False
          with unfolded x show ?thesis by auto
        next
          case True
          note is_json = this
          show ?thesis
          proof (cases "json r")
            case (Inr v)
            with unfolded is_json x \<open>post (lint_request s ua) = Inr r\<close> show ?thesis
              by auto
          next
            case (Inl jf)
            with unfolded is_json x show ?thesis
              by (cases jf) auto
          qed
        qed
      qed
    qed
  qed
qed

text \<open>
  C8. For every input and every behaviour of the transport, no exception leaves the call:
  it returns the decoded value, or it returns no result after printing exactly one
  diagnostic. An unexpected failure (an exception of \<^verbatim>\<open>requests.post\<close> or of the decoder that
  is no \<^verbatim>\<open>RequestException\<close>) is reported with kind \<open>UnknownError\<close> and the text of the
  exception.
\<close>

theorem lint_catches_every_failure:
  "(\<forall>e w'. lint_pine_script post x ua w \<noteq> (Propagated e, w'))
   \<and> ((\<exists>s r v. x = PyStr s \<and> post (lint_request s ua) = Inr r \<and> json r = Inr v
          \<and> lint_pine_script post x ua w = (Returned v, send (lint_request s ua) w))
      \<or> (\<exists>d. lint_pine_script post x ua w = (Returned PyNone, print_err d w))
      \<or> (\<exists>d s. x = PyStr s
          \<and> lint_pine_script post x ua w
              = (Returned PyNone, print_err d (send (lint_request s ua) w))))
   \<and> (\<forall>s m. x = PyStr s \<and> strip s \<noteq> [] \<and> post (lint_request s ua) = Inl (Crashed m) \<longrightarrow>
         lint_pine_script post x ua w
           = (Returned PyNone, print_err (MsgUnexpected m) (send (lint_request s ua) w))
         \<and> kind_of (MsgUnexpected m) = UnknownError
         \<and> render (MsgUnexpected m) = lit ''An unexpected error occurred: '' @ m)
   \<and> (\<forall>s r m. x = PyStr s \<and> strip s \<noteq> [] \<and> post (lint_request s ua) = Inr r
          \<and> \<not> (400 \<le> status_code r \<and> status_code r < 600)
          \<and> str_contains (lit ''application/json'') (content_type_or_empty r)
          \<and> json r = Inl (DecoderCrashed m) \<longrightarrow>
         lint_pine_script post x ua w
           = (Returned PyNone, print_err (MsgUnexpected m) (send (lint_request s ua) w)))"
proof (intro conjI allI impI)
  fix e w'
  show "lint_pine_script post x ua w \<noteq> (Propagated e, w')"
    using lint_outcome_cases [of x post ua w] by auto
next
  show "(\<exists>s r v. x = PyStr s \<and> post (lint_request s ua) = Inr r \<and> json r = Inr v
          \<and> lint_pine_script post x ua w = (Returned v, send (lint_request s ua) w))
      \<or> (\<exists>d. lint_pine_script post x ua w = (Returned PyNone, print_err d w))
      \<or> (\<exists>d s. x = PyStr s
          \<and> lint_pine_script post x ua w
              = (Returned PyNone, print_err d (send (lint_request s ua) w)))"
    by (rule lint_outcome_cases)
next
  fix s m
  assume "x = PyStr s \<and> strip s \<noteq> [] \<and> post (lint_request s ua) = Inl (Crashed m)"
  then show "lint_pine_script post x ua w
      = (Returned PyNone, print_err (MsgUnexpected m) (send (lint_request s ua) w))"
    by (simp add: lint_post_failed)
next
  fix s m
  show "kind_of (MsgUnexpected m) = UnknownError" by simp
next
  fix s m
  show "render (MsgUnexpected m) = lit ''An unexpected error occurred: '' @ m" by simp
next
  fix s r m
  assume "x = PyStr s \<and> strip s \<noteq> [] \<and> post (lint_request s ua) = Inr r
          \<and> \<not> (400 \<le> status_code r \<and> status_code r < 600)
          \<and> str_contains (lit ''application/json'') (content_type_or_empty r)
          \<and> json r = Inl (DecoderCrashed m)"
  then show "lint_pine_script post x ua w
      = (Returned PyNone, print_err (MsgUnexpected m) (send (lint_request s ua) w))"
    by (simp add: lint_status_passed)
qed

theorem lint_catches_every_failure_witness:
  "lint_pine_script (fail_with (Crashed (lit ''boom''))) (PyStr example_script)
       DEFAULT_USER_AGENT empty_world
     = (Returned PyNone,
        \<lparr>stdout = [], stderr = [MsgUnexpected (lit ''boom'')],
         sent = [lint_request example_script DEFAULT_USER_AGENT]\<rparr>)
   \<and> kind_of (MsgUnexpected (lit ''boom'')) = UnknownError"
  using lint_catches_every_failure
    [of "fail_with (Crashed (lit ''boom''))" "PyStr example_script" DEFAULT_USER_AGENT
        empty_world]
  by (simp add: example_script_not_blank fail_with_def print_err_def send_def empty_world_def)

subsection \<open>Independence of earlier calls\<close>

text \<open>
  What a call returns and what it prints and sends do not depend on the world it starts in:
  it only appends to the error channel and to the requests sent.
\<close>

lemma lint_effects:
  "\<exists>out ds reqs. \<forall>w.
      fst (lint_pine_script post x ua w) = out
    \<and> stdout (snd (lint_pine_script post x ua w)) = stdout w
    \<and> stderr (snd (lint_pine_script post x ua w)) = stderr w @ ds
    \<and> sent (snd (lint_pine_script post x ua w)) = sent w @ reqs"
proof (cases "isinstance_str x")
  case False
  then have "\<forall>w. fst (lint_pine_script post x ua w) = Returned PyNone
    \<and> stdout (snd (lint_pine_script post x ua w)) = stdout w
    \<and> stderr (snd (lint_pine_script post x ua w)) = stderr w @ [MsgNotString]
    \<and> sent (snd (lint_pine_script post x ua w)) = sent w @ []"
    by (simp add: lint_not_string print_err_def)
  then show ?thesis by blast
next
  case True
  then obtain s where x: "x = PyStr s"
    by (cases x) simp_all
  show ?thesis
  proof (cases "strip s = []")
    case True
    then have "\<forall>w. fst (lint_pine_script post x ua w) = Returned PyNone
      \<and> stdout (snd (lint_pine_script post x ua w)) = stdout w
      \<and> stderr (snd (lint_pine_script post x ua w)) = stderr w @ [MsgEmpty]
      \<and> sent (snd (lint_pine_script post x ua w)) = sent w @ []"
      by (simp add: x lint_blank print_err_def)
    then show ?thesis by blast
  next
    case False
    note valid = this
    show ?thesis
    proof (cases "lint_try (post (lint_request s ua))")
      case (Inr p)
      obtain v ds where p: "p = (v, ds)" by (cases p)
      have "\<forall>w. fst (lint_pine_script post x ua w) = Returned v
        \<and> stdout (snd (lint_pine_script post x ua w)) = stdout w
        \<and> stderr (snd (lint_pine_script post x ua w)) = stderr w @ ds
        \<and> sent (snd (lint_pine_script post x ua w)) = sent w @ [lint_request s ua]"
        using valid Inr p by (simp add: x lint_valid_input send_def)
      then show ?thesis by blast
    next
      case (Inl e)
      show ?thesis
      proof (cases "lint_except (local_response (post (lint_request s ua))) e")
        case (Inr d)
        have "\<forall>w. fst (lint_pine_script post x ua w) = Returned PyNone
          \<and> stdout (snd (lint_pine_script post x ua w)) = stdout w
          \<and> stderr (snd (lint_pine_script post x ua w)) = stderr w @ [d]
          \<and> sent (snd (lint_pine_script post x ua w)) = sent w @ [lint_request s ua]"
          using valid Inl Inr by (simp add: x lint_valid_input send_def print_err_def)
        then show ?thesis by blast
      next
        case (Inl e')
        have "\<forall>w. fst (lint_pine_script post x ua w) = Propagated e'
          \<and> stdout (snd (lint_pine_script post x ua w)) = stdout w
          \<and> stderr (snd (lint_pine_script post x ua w)) = stderr w @ []
          \<and> sent (snd (lint_pine_script post x ua w)) = sent w @ [lint_request s ua]"
          using valid \<open>lint_try (post (lint_request s ua)) = Inl e\<close> Inl
          by (simp add: x lint_valid_input send_def)
        then show ?thesis by blast
      qed
    qed
  qed
qed

text \<open>
  C9. Against a deterministic transport (the same answer to the same request), a second call
  with the same input, made in the world the first call left, returns the same result, prints
  the same diagnostics and sends the same request as the first. Nothing a call writes is read
  by a later call.
\<close>

theorem lint_twice_identical:
  assumes "lint_pine_script post x ua w = (o1, w1)"
    and "lint_pine_script post x ua w1 = (o2, w2)"
  shows "o2 = o1
         \<and> (\<exists>ds reqs. stderr w1 = stderr w @ ds \<and> stderr w2 = stderr w1 @ ds
               \<and> sent w1 = sent w @ reqs \<and> sent w2 = sent w1 @ reqs)
         \<and> stdout w1 = stdout w \<and> stdout w2 = stdout w1"
proof -
  obtain out ds reqs where eff: "\<forall>w.
      fst (lint_pine_script post x ua w) = out
    \<and> stdout (snd (lint_pine_script post x ua w)) = stdout w
    \<and> stderr (snd (lint_pine_script post x ua w)) = stderr w @ ds
    \<and> sent (snd (lint_pine_script post x ua w)) = sent w @ reqs"
    using lint_effects [of post x ua] by blast
  from eff [rule_format, of w] assms(1)
  have first: "o1 = out" "stdout w1 = stdout w" "stderr w1 = stderr w @ ds"
    "sent w1 = sent w @ reqs"
    by simp_all
  from eff [rule_format, of w1] assms(2)
  have second: "o2 = out" "stdout w2 = stdout w1" "stderr w2 = stderr w1 @ ds"
    "sent w2 = sent w1 @ reqs"
    by simp_all
  from first second show ?thesis by blast
qed

theorem lint_twice_identical_witness:
  "lint_pine_script
       (respond_with (simulated_response 500 None (lit ''server error details...'')
          (Inl (DecodeFailed (lit ''Expecting value'')))))
       (PyStr example_script) DEFAULT_USER_AGENT empty_world
     = (Returned PyNone,
        \<lparr>stdout = [], stderr = [MsgHttp 500 (lit ''server error details...'')],
         sent = [lint_request example_script DEFAULT_USER_AGENT]\<rparr>)
   \<and> lint_pine_script
       (respond_with (simulated_response 500 None (lit ''server error details...'')
          (Inl (DecodeFailed (lit ''Expecting value'')))))
       (PyStr example_script) DEFAULT_USER_AGENT
       \<lparr>stdout = [], stderr = [MsgHttp 500 (lit ''server error details...'')],
        sent = [lint_request example_script DEFAULT_USER_AGENT]\<rparr>
     = (Returned PyNone,
        \<lparr>stdout = [],
         stderr = [MsgHttp 500 (lit ''server error details...''),
                   MsgHttp 500 (lit ''server error details...'')],
         sent = [lint_request example_script DEFAULT_USER_AGENT,
                 lint_request example_script DEFAULT_USER_AGENT]\<rparr>)
   \<and> fst (lint_pine_script
       (respond_with (simulated_response 500 None (lit ''server error details...'')
          (Inl (DecodeFailed (lit ''Expecting value'')))))
       (PyStr example_script) DEFAULT_USER_AGENT
       \<lparr>stdout = [], stderr = [MsgHttp 500 (lit ''server error details...'')],
        sent = [lint_request example_script DEFAULT_USER_AGENT]\<rparr>)
     = fst (lint_pine_script
       (respond_with (simulated_response 500 None (lit ''server error details...'')
          (Inl (DecodeFailed (lit ''Expecting value'')))))
       (PyStr example_script) DEFAULT_USER_AGENT empty_world)"
proof -
  let ?post = "respond_with (simulated_response 500 None (lit ''server error details...'')
          (Inl (DecodeFailed (lit ''Expecting value''))))"
  let ?w1 = "\<lparr>stdout = [], stderr = [MsgHttp 500 (lit ''server error details...'')],
         sent = [lint_request example_script DEFAULT_USER_AGENT]\<rparr>"
  let ?w2 = "\<lparr>stdout = [],
         stderr = [MsgHttp 500 (lit ''server error details...''),
                   MsgHttp 500 (lit ''server error details...'')],
         sent = [lint_request example_script DEFAULT_USER_AGENT,
                 lint_request example_script DEFAULT_USER_AGENT]\<rparr>"
  have first: "lint_pine_script ?post (PyStr example_script) DEFAULT_USER_AGENT empty_world
      = (Returned PyNone, ?w1)"
    by (simp add: lint_status_error example_script_not_blank respond_with_def
        simulated_response_def print_err_def send_def empty_world_def lit_def)
  have second: "lint_pine_script ?post (PyStr example_script) DEFAULT_USER_AGENT ?w1
      = (Returned PyNone, ?w2)"
    by (simp add: lint_status_error example_script_not_blank respond_with_def
        simulated_response_def print_err_def send_def lit_def)
  show ?thesis
    using lint_twice_identical [OF first second] first second by simp
qed

subsection \<open>The identity argument\<close>

lemma lint_sends_request:
  assumes "strip s \<noteq> []"
  shows "sent (snd (lint_pine_script post (PyStr s) ua w)) = sent w @ [lint_request s ua]"
  using assms
  by (simp add: lint_valid_input send_def print_err_def split: sum.splits prod.splits)

lemma header_names_distinct:
  "lit ''Content-Type'' \<noteq> lit ''User-Agent''"
  "lit ''Accept'' \<noteq> lit ''User-Agent''"
  "lit ''Origin'' \<noteq> lit ''User-Agent''"
  "lit ''Referer'' \<noteq> lit ''User-Agent''"
  by (simp_all add: lit_def)

text \<open>
  C10. For the same script text, two identity values give requests with the same URL, the same
  \<^verbatim>\<open>Content-Type\<close>, \<^verbatim>\<open>Accept\<close>, \<^verbatim>\<open>Origin\<close> and \<^verbatim>\<open>Referer\<close> headers (the same value under every
  header name but \<^verbatim>\<open>User-Agent\<close>, which holds the identity), the same form data with the one
  field \<^verbatim>\<open>source\<close> holding the whole script text, and the same timeout; the second request is
  the first with its \<^verbatim>\<open>User-Agent\<close> entry replaced. This request is the one a call sends.
\<close>

theorem user_agent_changes_only_its_header:
  "url (lint_request s ua1) = url (lint_request s ua2)
   \<and> map_of (headers (lint_request s ua1)) (lit ''Content-Type'')
       = map_of (headers (lint_request s ua2)) (lit ''Content-Type'')
   \<and> map_of (headers (lint_request s ua1)) (lit ''Accept'')
       = map_of (headers (lint_request s ua2)) (lit ''Accept'')
   \<and> map_of (headers (lint_request s ua1)) (lit ''Origin'')
       = map_of (headers (lint_request s ua2)) (lit ''Origin'')
   \<and> map_of (headers (lint_request s ua1)) (lit ''Referer'')
       = map_of (headers (lint_request s ua2)) (lit ''Referer'')
   \<and> (\<forall>k. k \<noteq> lit ''User-Agent'' \<longrightarrow>
         map_of (headers (lint_request s ua1)) k = map_of (headers (lint_request s ua2)) k)
   \<and> map_of (headers (lint_request s ua1)) (lit ''User-Agent'') = Some ua1
   \<and> map_of (headers (lint_request s ua2)) (lit ''User-Agent'') = Some ua2
   \<and> data (lint_request s ua1) = [(lit ''source'', s)]
   \<and> data (lint_request s ua2) = [(lit ''source'', s)]
   \<and> timeout (lint_request s ua1) = 20 \<and> timeout (lint_request s ua2) = 20
   \<and> lint_request s ua2
       = (lint_request s ua1)
           \<lparr>headers := (lit ''User-Agent'', ua2) # tl (headers (lint_request s ua1))\<rparr>
   \<and> (strip s \<noteq> [] \<longrightarrow>
         sent (snd (lint_pine_script post (PyStr s) ua1 w)) = sent w @ [lint_request s ua1]
       \<and> sent (snd (lint_pine_script post (PyStr s) ua2 w)) = sent w @ [lint_request s ua2])"
  by (simp add: lint_request_def lint_sends_request header_names_distinct)

theorem user_agent_changes_only_its_header_witness:
  "map_of (headers (lint_request example_script DEFAULT_USER_AGENT)) (lit ''Accept'')
     = map_of (headers (lint_request example_script (lit ''curl/8.0''))) (lit ''Accept'')
   \<and> map_of (headers (lint_request example_script (lit ''curl/8.0''))) (lit ''User-Agent'')
     = Some (lit ''curl/8.0'')
   \<and> sent (snd (lint_pine_script (fail_with (Crashed (lit ''boom''))) (PyStr example_script)
        (lit ''curl/8.0'') empty_world))
     = [lint_request example_script (lit ''curl/8.0'')]"
  using user_agent_changes_only_its_header
    [of example_script DEFAULT_USER_AGENT "lit ''curl/8.0''"
        "fail_with (Crashed (lit ''boom''))" empty_world]
  by (simp add: example_script_not_blank empty_world_def)

subsection \<open>The command-line block\<close>

lemma lint_keeps_stdout: "stdout (snd (lint_pine_script post x ua w)) = stdout w"
  using lint_effects [of post x ua] by blast

text \<open>A result that Python counts as true is printed, with indentation 4.\<close>

lemma main_prints_true_result:
  assumes "1 < length argv"
    and "read_file (argv ! 1) = Inr script"
    and "lint_pine_script post (PyStr script) DEFAULT_USER_AGENT w = (Returned v, w1)"
    and "py_bool v"
  shows "main dumps read_file post argv w = print_out (dumps 4 v) w1"
    and "stdout (main dumps read_file post argv w) = stdout w @ [dumps 4 v]"
proof -
  show "main dumps read_file post argv w = print_out (dumps 4 v) w1"
    using assms by (simp add: main_def)
  moreover have "stdout w1 = stdout w"
    using lint_keeps_stdout [of post "PyStr script" DEFAULT_USER_AGENT w] assms(3) by simp
  ultimately show "stdout (main dumps read_file post argv w) = stdout w @ [dumps 4 v]"
    by (simp add: print_out_def)
qed

text \<open>When the call returns no result, nothing is printed to standard output.\<close>

lemma main_silent_on_failure:
  assumes "read_file (argv ! 1) = Inr script"
    and "fst (lint_pine_script post (PyStr script) DEFAULT_USER_AGENT w) = Returned PyNone"
  shows "stdout (main dumps read_file post argv w) = stdout w"
proof (cases "1 < length argv")
  case False
  then show ?thesis by (simp add: main_def print_err_def)
next
  case True
  obtain w1 where "lint_pine_script post (PyStr script) DEFAULT_USER_AGENT w
      = (Returned PyNone, w1)"
    using assms(2) by (cases "lint_pine_script post (PyStr script) DEFAULT_USER_AGENT w") simp
  moreover from this have "stdout w1 = stdout w"
    using lint_keeps_stdout [of post "PyStr script" DEFAULT_USER_AGENT w] by simp
  ultimately show ?thesis
    using True assms(1) by (simp add: main_def)
qed

text \<open>
  C3. The first half of the claim fails on the code: line 60 tests the truth value of the
  result, so a successful call whose result is the empty mapping \<^verbatim>\<open>{}\<close> is treated like a
  failed one. The call returns the mapping and prints no diagnostic, and the command-line
  block prints nothing at all.
\<close>

theorem main_empty_result_not_printed:
  "lint_pine_script (respond_with empty_object_response) (PyStr example_script)
       DEFAULT_USER_AGENT empty_world
     = (Returned (PyDict []),
        \<lparr>stdout = [], stderr = [], sent = [lint_request example_script DEFAULT_USER_AGENT]\<rparr>)
   \<and> main dumps (read_as example_script) (respond_with empty_object_response) example_argv
       empty_world
     = \<lparr>stdout = [], stderr = [], sent = [lint_request example_script DEFAULT_USER_AGENT]\<rparr>"
proof -
  have call: "lint_pine_script (respond_with empty_object_response) (PyStr example_script)
       DEFAULT_USER_AGENT empty_world
     = (Returned (PyDict []),
        \<lparr>stdout = [], stderr = [], sent = [lint_request example_script DEFAULT_USER_AGENT]\<rparr>)"
    by (simp add: lint_status_passed example_script_not_blank respond_with_def
        empty_object_response_def simulated_response_def content_type_or_empty_def send_def
        empty_world_def str_contains_append [of _ "[]" "[]", simplified])
  then show ?thesis
    by (simp add: main_def example_argv_def read_as_def)
qed

end
